theory Spec2Isabelle
  imports Complex_Main "HOL-Library.Sublist" "HOL-Library.Multiset"
begin

section \<open>Python text primitives\<close>

text \<open>
  A Python \<open>str\<close> is modelled as an Isabelle \<open>string\<close>, one \<open>char\<close> per code
  point; the model therefore covers the texts whose code points lie below 256. The
  character classes below are those of CPython for that range: \<open>str.isspace\<close> (used by
  \<open>str.split()\<close>, \<open>str.strip()\<close> and the regular expression class \<open>\s\<close>),
  \<open>str.lower\<close>, and the regular expression class \<open>\w\<close> (alphanumeric or underscore).
\<close>

definition py_isspace :: "char \<Rightarrow> bool" where
  "py_isspace c = (let n = (of_char c :: nat) in
     (9 \<le> n \<and> n \<le> 13) \<or> (28 \<le> n \<and> n \<le> 32) \<or> n = 133 \<or> n = 160)"

definition py_lower :: "char \<Rightarrow> char" where
  "py_lower c = (let n = (of_char c :: nat) in
     if (65 \<le> n \<and> n \<le> 90) \<or> (192 \<le> n \<and> n \<le> 222 \<and> n \<noteq> 215)
     then char_of (n + 32) else c)"

definition py_isword :: "char \<Rightarrow> bool" where
  "py_isword c = (let n = (of_char c :: nat) in
     (48 \<le> n \<and> n \<le> 57) \<or> (65 \<le> n \<and> n \<le> 90) \<or> n = 95 \<or> (97 \<le> n \<and> n \<le> 122)
     \<or> n = 170 \<or> n = 178 \<or> n = 179 \<or> n = 181 \<or> n = 185 \<or> n = 186
     \<or> (188 \<le> n \<and> n \<le> 190) \<or> (192 \<le> n \<and> n \<le> 214)
     \<or> (216 \<le> n \<and> n \<le> 246) \<or> (248 \<le> n \<and> n \<le> 255))"

text \<open>\<open>text.lower()\<close>\<close>

definition lower :: "string \<Rightarrow> string" where
  "lower s = map py_lower s"

text \<open>\<open>text.strip()\<close>: leading and trailing whitespace removed.\<close>

definition strip :: "string \<Rightarrow> string" where
  "strip s = rev (dropWhile py_isspace (rev (dropWhile py_isspace s)))"

text \<open>
  \<open>text.split()\<close>: the maximal runs of non-whitespace characters, in order. The first
  argument is the token being read.
\<close>

fun split_from :: "string \<Rightarrow> string \<Rightarrow> string list" where
  "split_from w [] = (if w = [] then [] else [w])"
| "split_from w (c # cs) =
     (if py_isspace c then (if w = [] then split_from [] cs else w # split_from [] cs)
      else split_from (w @ [c]) cs)"

definition split :: "string \<Rightarrow> string list" where
  "split s = split_from [] s"

text \<open>\<open>' '.join(words)\<close>\<close>

fun join :: "string list \<Rightarrow> string" where
  "join [] = []"
| "join [w] = w"
| "join (w # ws) = w @ CHR '' '' # join ws"

text \<open>\<open>sub in text\<close>: substring test.\<close>

fun contains :: "string \<Rightarrow> string \<Rightarrow> bool" where
  "contains sub [] = (sub = [])"
| "contains sub (c # cs) = (prefix sub (c # cs) \<or> contains sub cs)"

text \<open>
  \<open>text.replace(old, new)\<close>: every non-overlapping occurrence of \<open>old\<close>, scanning from
  the left. For an empty \<open>old\<close> Python inserts \<open>new\<close> before every character and at the
  end.
\<close>

function replace :: "string \<Rightarrow> string \<Rightarrow> string \<Rightarrow> string" where
  "replace old new [] = (if old = [] then new else [])"
| "replace old new (c # cs) =
     (if old = [] then new @ c # replace old new cs
      else if prefix old (c # cs) then new @ replace old new (drop (length old) (c # cs))
      else c # replace old new cs)"
  by pat_completeness auto
termination
  by (relation "measure (\<lambda>(old, new, s). length s)") (auto simp: neq_Nil_conv)

text \<open>\<open>re.sub(r'\s+', ' ', text)\<close>: the flag says that a whitespace run is being read.\<close>

fun sub_spaces :: "bool \<Rightarrow> string \<Rightarrow> string" where
  "sub_spaces run [] = []"
| "sub_spaces run (c # cs) =
     (if py_isspace c then (if run then sub_spaces True cs else CHR '' '' # sub_spaces True cs)
      else c # sub_spaces False cs)"

text \<open>\<open>re.sub(r'[^\w\s\?\!]', '', text)\<close>\<close>

definition keep_char :: "char \<Rightarrow> bool" where
  "keep_char c = (py_isword c \<or> py_isspace c \<or> c = CHR ''?'' \<or> c = CHR ''!'')"

text \<open>
  \<open>re.sub(r'[\?\!]{2,}', '?', text)\<close>: a maximal run of two or more question or
  exclamation marks becomes one question mark; a single mark stays.
\<close>

definition is_mark :: "char \<Rightarrow> bool" where
  "is_mark c = (c = CHR ''?'' \<or> c = CHR ''!'')"

function sub_marks :: "string \<Rightarrow> string" where
  "sub_marks [] = []"
| "sub_marks (c # cs) =
     (if is_mark c \<and> takeWhile is_mark cs \<noteq> []
      then CHR ''?'' # sub_marks (dropWhile is_mark cs)
      else c # sub_marks cs)"
  by pat_completeness auto
termination
  by (relation "measure length") (auto simp: less_Suc_eq_le length_dropWhile_le)

section \<open>The preprocessor (utils/preprocessing.py)\<close>

text \<open>
  The three lexicon tables of \<open>SinglishPreprocessor.__init__\<close>, as association lists in
  the order of the dictionary literals (a Python dictionary iterates in insertion order).
  The source writes the key \<open>lidis\<close> twice with the same value.
\<close>

definition singlish_mappings :: "(string \<times> string) list" where
  "singlish_mappings = [
    (''lah'', ''''), (''lor'', ''''), (''meh'', ''''), (''sia'', ''''), (''what'', ''what''),
    (''liddat'', ''like that''), (''lidat'', ''like that''), (''lidis'', ''like this''),
    (''lidis'', ''like this''), (''macam'', ''like''), (''machai'', ''friend''),
    (''machan'', ''friend''), (''nangi'', ''sister''), (''akka'', ''sister''),
    (''aiya'', ''oh no''), (''aiyo'', ''oh no''), (''wah'', ''wow''), (''shiok'', ''nice''),
    (''steady'', ''good''), (''chio'', ''beautiful''), (''blur'', ''confused''),
    (''sian'', ''bored''), (''jialat'', ''terrible''), (''buay'', ''cannot''),
    (''tahan'', ''endure''), (''paiseh'', ''embarrassed''), (''kiasu'', ''afraid to lose''),
    (''kiasi'', ''afraid to die''), (''bojio'', ''didnt invite''), (''chope'', ''reserve''),
    (''lepak'', ''relax''), (''makan'', ''eat''), (''tapao'', ''takeaway''),
    (''tabao'', ''takeaway''), (''chit chat'', ''chat''), (''ang moh'', ''westerner''),
    (''mata'', ''police''), (''kena'', ''got''), (''cannot'', ''cannot''), (''can'', ''can''),
    (''got'', ''have''), (''never'', ''didnt''), (''already'', ''already''),
    (''then'', ''then''), (''also'', ''also''), (''still'', ''still''), (''very'', ''very''),
    (''so'', ''so''), (''like'', ''like''), (''want'', ''want''),
    (''dont want'', ''dont want''), (''no need'', ''no need''), (''need'', ''need''),
    (''must'', ''must''), (''confirm'', ''confirm''), (''sure'', ''sure''),
    (''really'', ''really''), (''actually'', ''actually''), (''maybe'', ''maybe''),
    (''definitely'', ''definitely''), (''probably'', ''probably'')]"

definition sinhala_romanized :: "(string \<times> string) list" where
  "sinhala_romanized = [
    (''kohomada'', ''how are you''), (''kohomadha'', ''how are you''),
    (''kohomda'', ''how are you''), (''kohoma'', ''how''), (''oyage'', ''your''),
    (''mage'', ''my''), (''nama'', ''name''), (''mama'', ''i''), (''oya'', ''you''),
    (''api'', ''we''), (''mokakda'', ''what''), (''mokak'', ''what''), (''kawda'', ''who''),
    (''koheda'', ''where''), (''kiyada'', ''how much''), (''kiyanne'', ''saying''),
    (''karanne'', ''doing''), (''yanne'', ''going''), (''enawa'', ''coming''),
    (''hari'', ''good''), (''honda'', ''good''), (''naha'', ''no''), (''ow'', ''yes''),
    (''mata'', ''me''), (''giya'', ''went''), (''awa'', ''came''), (''kanna'', ''eat''),
    (''bonawa'', ''drink''), (''balanna'', ''see''), (''ahanna'', ''listen''),
    (''katha'', ''talk''), (''help'', ''help''), (''karanna'', ''do''), (''denne'', ''give''),
    (''ganna'', ''take''), (''therenne'', ''know''), (''dannawa'', ''know''),
    (''adare'', ''love''), (''stuti'', ''thanks''), (''stutiyi'', ''thanks''),
    (''bohoma'', ''very''), (''godak'', ''very''), (''tikak'', ''little''),
    (''loku'', ''big''), (''podi'', ''small''), (''rassai'', ''delicious''),
    (''watinawa'', ''important''), (''lassana'', ''beautiful''), (''hodai'', ''good''),
    (''naraka'', ''bad''), (''baya'', ''scared''), (''ussai'', ''tall''),
    (''pathal'', ''low''), (''mal'', ''flowers''), (''gas'', ''tree''), (''pala'', ''fruit''),
    (''bath'', ''rice''), (''curry'', ''curry''), (''kiri'', ''milk''), (''thee'', ''tea''),
    (''kopi'', ''coffee''), (''watura'', ''water''), (''ira'', ''sun''), (''handa'', ''moon''),
    (''tharu'', ''star''), (''gaha'', ''tree''), (''mala'', ''flower''), (''wassa'', ''rain''),
    (''wata'', ''wind'')]"

definition contraction_mapping :: "(string \<times> string) list" where
  "contraction_mapping = [
    (''ain't'', ''is not''), (''aren't'', ''are not''),
    (''can't'', ''cannot''), (''couldn't'', ''could not''),
    (''didn't'', ''did not''), (''doesn't'', ''does not''),
    (''don't'', ''do not''), (''hadn't'', ''had not''),
    (''hasn't'', ''has not''), (''haven't'', ''have not''),
    (''he'd'', ''he would''), (''he'll'', ''he will''),
    (''he's'', ''he is''), (''i'd'', ''i would''), (''i'll'', ''i will''),
    (''i'm'', ''i am''), (''i've'', ''i have''), (''isn't'', ''is not''),
    (''it'd'', ''it would''), (''it'll'', ''it will''),
    (''it's'', ''it is''), (''let's'', ''let us''),
    (''shouldn't'', ''should not''), (''that's'', ''that is''),
    (''there's'', ''there is''), (''they'd'', ''they would''),
    (''they'll'', ''they will''), (''they're'', ''they are''),
    (''they've'', ''they have''), (''we'd'', ''we would''),
    (''we're'', ''we are''), (''we've'', ''we have''),
    (''weren't'', ''were not''), (''what's'', ''what is''),
    (''where's'', ''where is''), (''who's'', ''who is''),
    (''won't'', ''will not''), (''wouldn't'', ''would not''),
    (''you'd'', ''you would''), (''you'll'', ''you will''),
    (''you're'', ''you are''), (''you've'', ''you have'')]"

text \<open>The particle list written in \<open>_process_singlish_terms\<close>.\<close>

definition particles :: "string list" where
  "particles = [''lah'', ''lor'', ''meh'', ''sia'', ''leh'', ''hor'', ''ah'']"

text \<open>\<open>_expand_contractions\<close>: one \<open>str.replace\<close> per table entry, in table order.\<close>

fun expand_loop :: "(string \<times> string) list \<Rightarrow> string \<Rightarrow> string" where
  "expand_loop [] text = text"
| "expand_loop ((contraction, expansion) # rest) text =
     expand_loop rest (replace contraction expansion text)"

definition expand_contractions :: "string \<Rightarrow> string" where
  "expand_contractions text = expand_loop contraction_mapping text"

text \<open>\<open>_process_singlish_terms\<close>: the loop over the words, then the join.\<close>

fun singlish_loop :: "string list \<Rightarrow> string list" where
  "singlish_loop [] = []"
| "singlish_loop (word # words) =
     (if word \<in> set particles then singlish_loop words
      else case map_of singlish_mappings word of
        Some mapped \<Rightarrow> (if mapped \<noteq> [] then mapped # singlish_loop words
                        else singlish_loop words)
      | None \<Rightarrow> word # singlish_loop words)"

definition process_singlish_terms :: "string \<Rightarrow> string" where
  "process_singlish_terms text = join (singlish_loop (split text))"

text \<open>\<open>_process_sinhala_terms\<close>\<close>

fun sinhala_loop :: "string list \<Rightarrow> string list" where
  "sinhala_loop [] = []"
| "sinhala_loop (word # words) =
     (case map_of sinhala_romanized word of
        Some gloss \<Rightarrow> gloss # sinhala_loop words
      | None \<Rightarrow> word # sinhala_loop words)"

definition process_sinhala_terms :: "string \<Rightarrow> string" where
  "process_sinhala_terms text = join (sinhala_loop (split text))"

text \<open>\<open>_clean_punctuation\<close>\<close>

definition clean_punctuation :: "string \<Rightarrow> string" where
  "clean_punctuation text = sub_marks (filter keep_char text)"

text \<open>
  \<open>process\<close>. The four helper methods are called through \<open>self\<close>; the record holds
  them, each returning either an exception or its string, so that the \<open>try\<close> block and
  its handler are branches of the model. The handler reads the variable \<open>text\<close>, which
  every completed statement of the block has reassigned.
\<close>

datatype error = Exception

record stages =
  st_expand_contractions :: "string \<Rightarrow> error + string"
  st_process_singlish_terms :: "string \<Rightarrow> error + string"
  st_process_sinhala_terms :: "string \<Rightarrow> error + string"
  st_clean_punctuation :: "string \<Rightarrow> error + string"

definition process_with :: "stages \<Rightarrow> string \<Rightarrow> string" where
  "process_with st text0 =
     (let text1 = strip (lower text0);
          text2 = sub_spaces False text1
      in case st_expand_contractions st text2 of
           Inl e \<Rightarrow> strip (lower text2)
         | Inr text3 \<Rightarrow>
      (case st_process_singlish_terms st text3 of
           Inl e \<Rightarrow> strip (lower text3)
         | Inr text4 \<Rightarrow>
      (case st_process_sinhala_terms st text4 of
           Inl e \<Rightarrow> strip (lower text4)
         | Inr text5 \<Rightarrow>
      (case st_clean_punctuation st text5 of
           Inl e \<Rightarrow> strip (lower text5)
         | Inr text6 \<Rightarrow> strip text6))))"

text \<open>The methods of the class itself: none of them raises on a string.\<close>

definition own_stages :: stages where
  "own_stages = \<lparr>
     st_expand_contractions = (\<lambda>t. Inr (expand_contractions t)),
     st_process_singlish_terms = (\<lambda>t. Inr (process_singlish_terms t)),
     st_process_sinhala_terms = (\<lambda>t. Inr (process_sinhala_terms t)),
     st_clean_punctuation = (\<lambda>t. Inr (clean_punctuation t)) \<rparr>"

definition process :: "string \<Rightarrow> string" where
  "process text = process_with own_stages text"

text \<open>A string that \<open>str.lower\<close> leaves unchanged.\<close>

definition lowered :: "string \<Rightarrow> bool" where
  "lowered s = list_all (\<lambda>c. py_lower c = c) s"

section \<open>Python floats\<close>

text \<open>
  A Python \<open>float\<close> is an IEEE 754 double. A finite double is modelled by the rational
  number it denotes, and an arithmetic operation by the exact operation followed by
  rounding to the nearest double, ties to the even significand, as the standard
  prescribes. The significand has 53 bits; every value the program computes lies far
  inside the normal range, so subnormal numbers, overflow and the sign of zero are not
  modelled. A float literal of the source such as \<open>0.3\<close> is \<open>to_double (3 / 10)\<close>.
\<close>

type_synonym double = rat

text \<open>The number of binary digits of a positive integer.\<close>

fun bits :: "int \<Rightarrow> nat" where
  "bits k = (if k \<le> 0 then 0 else Suc (bits (k div 2)))"

declare bits.simps [simp del]

definition pow2 :: "int \<Rightarrow> rat" where
  "pow2 e = (if e \<ge> 0 then 2 ^ nat e else 1 / 2 ^ nat (- e))"

text \<open>The binary exponent of a number other than zero: the \<open>e\<close> with \<open>2^e \<le> |x| < 2^(e+1)\<close>.\<close>

definition exponent :: "rat \<Rightarrow> int" where
  "exponent x =
     (let (a, b) = quotient_of \<bar>x\<bar>;
          d = int (bits a) - int (bits b)
      in if pow2 d \<le> \<bar>x\<bar> then d else d - 1)"

definition round_half_even :: "rat \<Rightarrow> int" where
  "round_half_even q =
     (let f = \<lfloor>q\<rfloor>; r = q - of_int f
      in if r < 1 / 2 then f else if r > 1 / 2 then f + 1
         else if even f then f else f + 1)"

definition to_double :: "rat \<Rightarrow> double" where
  "to_double x =
     (if x = 0 then 0
      else let ulp = pow2 (exponent x - 52)
           in of_int (round_half_even (x / ulp)) * ulp)"

definition fadd :: "double \<Rightarrow> double \<Rightarrow> double" where
  "fadd x y = to_double (x + y)"

definition fsub :: "double \<Rightarrow> double \<Rightarrow> double" where
  "fsub x y = to_double (x - y)"

definition fmul :: "double \<Rightarrow> double \<Rightarrow> double" where
  "fmul x y = to_double (x * y)"


subsection \<open>Feature extraction\<close>










section \<open>The language classifier (models/singlish\_classifier.py)\<close>

text \<open>
  Scores and confidences are Python floats: the weights are the doubles nearest to
  0.3, 0.4 and 0.2, and every \<open>+=\<close> is a rounded addition, made in the order of the
  source.
\<close>

definition marker_particles :: "string list" where
  "marker_particles = [''lah'', ''lor'', ''meh'', ''sia'', ''leh'', ''hor'', ''ah'']"

definition marker_sinhala_words :: "string list" where
  "marker_sinhala_words = [''kohomada'', ''mama'', ''oya'', ''nama'', ''mokakda'']"

definition marker_grammar_patterns :: "string list" where
  "marker_grammar_patterns = [''got'', ''never'', ''already'', ''still'', ''also'']"

definition marker_expressions :: "string list" where
  "marker_expressions = [''aiyo'', ''wah'', ''shiok'', ''steady'', ''chio'']"

text \<open>
  One of the four loops of \<open>_calculate_singlish_score\<close>: it runs over the markers of a
  category and adds the category's weight at every marker found in the text.
\<close>

fun score_loop :: "string list \<Rightarrow> double \<Rightarrow> string \<Rightarrow> double \<Rightarrow> double" where
  "score_loop [] weight text score = score"
| "score_loop (marker # markers) weight text score =
     (if contains marker text then score_loop markers weight text (fadd score weight)
      else score_loop markers weight text score)"

definition calculate_singlish_score :: "string \<Rightarrow> double" where
  "calculate_singlish_score text =
     (let words = split text
      in if words = [] then 0
         else let score = 0;
                  score = score_loop marker_particles (to_double (3 / 10)) text score;
                  score = score_loop marker_sinhala_words (to_double (4 / 10)) text score;
                  score = score_loop marker_grammar_patterns (to_double (2 / 10)) text score;
                  score = score_loop marker_expressions (to_double (3 / 10)) text score
              in min score 1)"

text \<open>\<open>_contains_sinhala\<close>\<close>

definition sinhala_indicators :: "string list" where
  "sinhala_indicators = [''kohomada'', ''oyage'', ''mage'', ''mama'', ''oya'']"

definition contains_sinhala :: "string \<Rightarrow> bool" where
  "contains_sinhala text = list_ex (\<lambda>indicator. contains indicator text) sinhala_indicators"

record language_features =
  lf_has_particles :: bool
  lf_has_sinhala :: bool
  lf_word_count :: nat
  lf_char_count :: nat

definition extract_language_features :: "string \<Rightarrow> language_features" where
  "extract_language_features text = \<lparr>
     lf_has_particles = list_ex (\<lambda>p. contains p text) marker_particles,
     lf_has_sinhala = contains_sinhala text,
     lf_word_count = length (split text),
     lf_char_count = length text \<rparr>"

record language_result =
  lr_classification :: string
  lr_confidence :: double
  lr_singlish_score :: double
  lr_features :: language_features

text \<open>
  \<open>classify\<close>. No statement of its \<open>try\<close> block raises on a string, so the handler
  (label \<open>unknown\<close>) is not a branch of the model.
\<close>

definition classify :: "string \<Rightarrow> language_result" where
  "classify text =
     (let text_lower = lower text;
          singlish_score = calculate_singlish_score text_lower;
          (classification, confidence) =
            (if singlish_score > to_double (3 / 10) then (''singlish'', min singlish_score 1)
             else if contains_sinhala text_lower then (''sinhala_romanized'', to_double (8 / 10))
             else (''english'', fsub 1 singlish_score))
      in \<lparr> lr_classification = classification,
           lr_confidence = confidence,
           lr_singlish_score = singlish_score,
           lr_features = extract_language_features text_lower \<rparr>)"

text \<open>
  The scoring rule in the words of the specification, for comparison with the code: the
  weight of a category is added once if at least one of its markers occurs in the
  lowercased text.
\<close>

definition spec_category_score :: "string \<Rightarrow> double" where
  "spec_category_score text =
     (let t = lower text;
          hit = (\<lambda>markers weight score.
                   if list_ex (\<lambda>m. contains m t) markers then fadd score weight else score)
      in min (hit marker_expressions (to_double (3 / 10))
               (hit marker_grammar_patterns (to_double (2 / 10))
                 (hit marker_sinhala_words (to_double (4 / 10))
                   (hit marker_particles (to_double (3 / 10)) 0)))) 1)"

text \<open>The number of markers of a list that occur in a text.\<close>

definition hits :: "string list \<Rightarrow> string \<Rightarrow> nat" where
  "hits markers text = length (filter (\<lambda>m. contains m text) markers)"

text \<open>
  The score after \<open>a\<close> additions of 0.3, \<open>b\<close> of 0.4, \<open>c\<close> of 0.2 and \<open>d\<close> of 0.3, made in
  this order from 0.0 in double precision.
\<close>

definition score_of_counts :: "nat \<Rightarrow> nat \<Rightarrow> nat \<Rightarrow> nat \<Rightarrow> double" where
  "score_of_counts a b c d =
     ((\<lambda>s. fadd s (to_double (3 / 10))) ^^ d)
       (((\<lambda>s. fadd s (to_double (2 / 10))) ^^ c)
         (((\<lambda>s. fadd s (to_double (4 / 10))) ^^ b)
           (((\<lambda>s. fadd s (to_double (3 / 10))) ^^ a) 0)))"

section \<open>Properties of the preprocessor\<close>

text \<open>
  C4. The claim: no discourse particle is a token of the canonical output, also when
  the particle stands next to punctuation. The code drops a particle only when it is a
  whole token of the text before the punctuation cleanup: in \<open>ok lah.\<close> the token is
  \<open>lah.\<close>, which is kept, and the cleanup that runs afterwards strips the period, so
  that the particle \<open>lah\<close> is a token of the canonical output.
\<close>

theorem particle_survives_before_period:
  "process ''ok lah.'' = ''ok lah'' \<and> ''lah'' \<in> set particles
   \<and> ''lah'' \<in> set (split (process ''ok lah.''))"
  by code_simp

subsection \<open>The canonical output is lowercase\<close>

lemma lowered_iff: "lowered s \<longleftrightarrow> (\<forall>c\<in>set s. py_lower c = c)"
  by (simp add: lowered_def list_all_iff)

lemma of_char_less_256: "(of_char c :: nat) < 256"
proof -
  have "of_char c = (of_char c :: nat) mod 256" by (simp only: of_char_mod_256)
  also have "\<dots> < 256" by simp
  finally show ?thesis .
qed

lemma py_lower_idem: "py_lower (py_lower c) = py_lower c"
proof -
  let ?n = "of_char c :: nat"
  show ?thesis
  proof (cases "(65 \<le> ?n \<and> ?n \<le> 90) \<or> (192 \<le> ?n \<and> ?n \<le> 222 \<and> ?n \<noteq> 215)")
    case True
    then have lt: "?n + 32 < 256" by auto
    have lc: "py_lower c = char_of (?n + 32)"
      unfolding py_lower_def Let_def using True by (rule if_P)
    have oc: "(of_char (char_of (?n + 32)) :: nat) = ?n + 32"
      using lt by (simp add: of_char_of)
    have no: "\<not> ((65 \<le> ?n + 32 \<and> ?n + 32 \<le> 90) \<or> (192 \<le> ?n + 32 \<and> ?n + 32 \<le> 222 \<and> ?n + 32 \<noteq> 215))"
      using True by auto
    have "py_lower (char_of (?n + 32)) = char_of (?n + 32)"
      unfolding py_lower_def Let_def oc using no by (rule if_not_P)
    then show ?thesis by (simp only: lc)
  next
    case False
    have "py_lower c = c"
      unfolding py_lower_def Let_def using False by (rule if_not_P)
    then show ?thesis by simp
  qed
qed

lemma lowered_lower: "lowered (lower s)"
  by (simp add: lowered_iff lower_def py_lower_idem)

lemma lower_fix: "lowered s \<Longrightarrow> lower s = s"
  by (simp add: lowered_iff lower_def map_idI)

lemma lowered_subset: "set t \<subseteq> set s \<Longrightarrow> lowered s \<Longrightarrow> lowered t"
  by (auto simp: lowered_iff)

lemma set_strip: "set (strip s) \<subseteq> set s"
  unfolding strip_def
  by (metis set_rev set_dropWhileD subsetI)

lemma lowered_strip: "lowered s \<Longrightarrow> lowered (strip s)"
  using lowered_subset [OF set_strip] .

lemma py_lower_space: "py_lower (CHR '' '') = CHR '' ''"
  by (simp add: py_lower_def)

lemma py_lower_qmark: "py_lower (CHR ''?'') = CHR ''?''"
  by (simp add: py_lower_def)

lemma lowered_sub_spaces: "lowered s \<Longrightarrow> lowered (sub_spaces b s)"
  by (induction b s rule: sub_spaces.induct) (auto simp: lowered_iff py_lower_space)

lemma lowered_Cons: "lowered (c # cs) \<longleftrightarrow> py_lower c = c \<and> lowered cs"
  by (simp add: lowered_def)

lemma lowered_append: "lowered (a @ b) \<longleftrightarrow> lowered a \<and> lowered b"
  by (simp add: lowered_def)

lemma lowered_Nil: "lowered []"
  by (simp add: lowered_def)

lemma lowered_drop: "lowered s \<Longrightarrow> lowered (drop n s)"
  by (rule lowered_subset [OF set_drop_subset])

lemma lowered_replace: "lowered new \<Longrightarrow> lowered s \<Longrightarrow> lowered (replace old new s)"
proof (induction old new s rule: replace.induct)
  case (1 old new)
  then show ?case by (simp add: lowered_Nil)
next
  case (2 old new c cs)
  have d: "lowered (drop (length old) (c # cs))"
    using "2.prems"(2) by (rule lowered_drop)
  have t: "lowered cs" and h: "py_lower c = c"
    using "2.prems"(2) by (simp_all add: lowered_Cons)
  show ?case
  proof (cases "old = []")
    case True
    have "lowered (replace old new cs)" using "2.IH"(1) [OF True "2.prems"(1) t] .
    then show ?thesis using True h "2.prems"(1)
      by (simp add: lowered_Cons lowered_append)
  next
    case False
    note ne = this
    show ?thesis
    proof (cases "prefix old (c # cs)")
      case True
      have "lowered (replace old new (drop (length old) (c # cs)))"
        using "2.IH"(2) [OF ne True "2.prems"(1) d] .
      then show ?thesis using ne True "2.prems"(1)
        by (simp only: replace.simps if_True if_False lowered_append simp_thms)
    next
      case False
      have "lowered (replace old new cs)"
        using "2.IH"(3) [OF ne False "2.prems"(1) t] .
      then show ?thesis using ne False h
        by (simp only: replace.simps if_True if_False lowered_Cons simp_thms)
    qed
  qed
qed

lemma lowered_expand_loop:
  "list_all (\<lambda>(k, v). lowered v) tbl \<Longrightarrow> lowered s \<Longrightarrow> lowered (expand_loop tbl s)"
  by (induction tbl s rule: expand_loop.induct) (auto simp: lowered_replace)

lemma split_from_tokens:
  "t \<in> set (split_from w s) \<Longrightarrow> set t \<subseteq> set w \<union> set s"
  by (induction w s rule: split_from.induct) (auto split: if_splits)

lemma lowered_split: "lowered s \<Longrightarrow> list_all lowered (split s)"
  unfolding split_def list_all_iff
  using split_from_tokens [of _ "[]" s] by (auto simp: lowered_iff)

lemma lowered_join: "list_all lowered ws \<Longrightarrow> lowered (join ws)"
  by (induction ws rule: join.induct) (auto simp: lowered_def py_lower_space)

lemma lowered_singlish_loop:
  "list_all (\<lambda>(k, v). lowered v) singlish_mappings \<Longrightarrow> list_all lowered ws \<Longrightarrow> list_all lowered (singlish_loop ws)"
proof (induction ws)
  case Nil then show ?case by simp
next
  case (Cons w ws)
  then show ?case
    by (auto split: option.splits dest!: map_of_SomeD simp: list_all_iff)
qed

lemma lowered_sinhala_loop:
  "list_all (\<lambda>(k, v). lowered v) sinhala_romanized \<Longrightarrow> list_all lowered ws \<Longrightarrow> list_all lowered (sinhala_loop ws)"
proof (induction ws)
  case Nil then show ?case by simp
next
  case (Cons w ws)
  then show ?case
    by (auto split: option.splits dest!: map_of_SomeD simp: list_all_iff)
qed

lemma tbl1: "list_all (\<lambda>(k, v). lowered v) singlish_mappings" by code_simp
lemma tbl2: "list_all (\<lambda>(k, v). lowered v) sinhala_romanized" by code_simp
lemma tbl3: "list_all (\<lambda>(k, v). lowered v) contraction_mapping" by code_simp

lemma lowered_sub_marks: "lowered s \<Longrightarrow> lowered (sub_marks s)"
proof (induction s rule: sub_marks.induct)
  case 1 then show ?case by simp
next
  case (2 c cs)
  have t: "lowered cs" and h: "py_lower c = c" using "2.prems" by (simp_all add: lowered_iff)
  have d: "lowered (dropWhile is_mark cs)"
    using t set_dropWhileD [of _ is_mark cs] by (auto simp: lowered_iff)
  show ?case
  proof (cases "is_mark c \<and> takeWhile is_mark cs \<noteq> []")
    case True
    then show ?thesis using "2.IH"(1) [OF True d] by (simp add: lowered_def py_lower_qmark)
  next
    case False
    then show ?thesis using "2.IH"(2) [OF False t] h by (auto simp add: lowered_def)
  qed
qed

lemma lowered_clean: "lowered s \<Longrightarrow> lowered (clean_punctuation s)"
  unfolding clean_punctuation_def
  by (rule lowered_sub_marks) (simp add: lowered_iff)

text \<open>
  C10. On every input text the canonical output is already lowercase: lowercasing it
  again changes nothing. Every stage after the first only deletes characters, inserts
  spaces or a question mark, or inserts a table value, and every table value is lowercase.
\<close>

theorem process_lowercase: "lower (process text) = process text"
proof -
  let ?t2 = "sub_spaces False (strip (lower text))"
  have 2: "lowered ?t2" by (intro lowered_sub_spaces lowered_strip lowered_lower)
  have 3: "lowered (expand_contractions ?t2)"
    unfolding expand_contractions_def by (rule lowered_expand_loop [OF tbl3 2])
  have 4: "lowered (process_singlish_terms (expand_contractions ?t2))"
    unfolding process_singlish_terms_def
    by (intro lowered_join lowered_singlish_loop tbl1 lowered_split 3)
  have 5: "lowered (process_sinhala_terms (process_singlish_terms (expand_contractions ?t2)))"
    unfolding process_sinhala_terms_def
    by (intro lowered_join lowered_sinhala_loop tbl2 lowered_split 4)
  have "lowered (process text)"
    unfolding process_def process_with_def own_stages_def
    using 5 by (simp add: Let_def lowered_strip lowered_clean)
  then show ?thesis by (rule lower_fix)
qed

subsection \<open>Two runs of the normalizer\<close>








section \<open>Properties of the language classifier\<close>

lemma score_loop_funpow:
  "score_loop markers w t s = ((\<lambda>s. fadd s w) ^^ hits markers t) s"
proof (induction markers arbitrary: s)
  case Nil
  show ?case by (simp add: hits_def)
next
  case (Cons m ms)
  show ?case
  proof (cases "contains m t")
    case True
    then show ?thesis
      using Cons [of "fadd s w"]
        funpow_swap1 [of "\<lambda>s. fadd s w" "hits ms t" s]
      by (simp add: hits_def)
  next
    case False
    then show ?thesis using Cons [of s] by (simp add: hits_def)
  qed
qed

lemma split_from_Nil: "split_from w s = [] \<Longrightarrow> w = [] \<and> (\<forall>c\<in>set s. py_isspace c)"
proof (induction s arbitrary: w)
  case Nil
  then show ?case by (simp split: if_splits)
next
  case (Cons c cs)
  show ?case
  proof (cases "py_isspace c")
    case True
    show ?thesis
    proof (cases "w = []")
      case True
      with \<open>py_isspace c\<close> Cons.prems have "split_from [] cs = []" by simp
      then have "\<forall>c\<in>set cs. py_isspace c" using Cons.IH by blast
      with \<open>py_isspace c\<close> \<open>w = []\<close> show ?thesis by simp
    next
      case False
      with \<open>py_isspace c\<close> Cons.prems show ?thesis by simp
    qed
  next
    case False
    with Cons.prems have "split_from (w @ [c]) cs = []" by simp
    then have "w @ [c] = []" using Cons.IH by blast
    then show ?thesis by simp
  qed
qed

lemma contains_set: "contains m s \<Longrightarrow> set m \<subseteq> set s"
proof (induction m s rule: contains.induct)
  case (1 sub) then show ?case by simp
next
  case (2 sub c cs)
  from "2.prems" have "prefix sub (c # cs) \<or> contains sub cs" by simp
  then show ?case
  proof
    assume "prefix sub (c # cs)" then show ?thesis by (rule set_mono_prefix)
  next
    assume "contains sub cs"
    then have "set sub \<subseteq> set cs" by (rule "2.IH")
    then show ?thesis by auto
  qed
qed

lemma no_marker_in_blank:
  assumes "split t = []" and "list_ex (\<lambda>c. \<not> py_isspace c) m"
  shows "\<not> contains m t"
proof
  assume "contains m t"
  then have "set m \<subseteq> set t" by (rule contains_set)
  moreover have "\<forall>c\<in>set t. py_isspace c"
    using assms(1) split_from_Nil [of "[]" t] by (simp add: split_def)
  ultimately show False using assms(2) by (auto simp: list_ex_iff)
qed

lemma hits_blank:
  "split t = [] \<Longrightarrow> list_all (list_ex (\<lambda>c. \<not> py_isspace c)) markers \<Longrightarrow>
   hits markers t = 0"
  by (induction markers) (auto simp: hits_def no_marker_in_blank)

lemma visible1: "list_all (list_ex (\<lambda>c. \<not> py_isspace c)) marker_particles"
  by code_simp
lemma visible2: "list_all (list_ex (\<lambda>c. \<not> py_isspace c)) marker_sinhala_words"
  by code_simp
lemma visible3: "list_all (list_ex (\<lambda>c. \<not> py_isspace c)) marker_grammar_patterns"
  by code_simp
lemma visible4: "list_all (list_ex (\<lambda>c. \<not> py_isspace c)) marker_expressions"
  by code_simp

lemma calculate_singlish_score_counts:
  "calculate_singlish_score t =
     min (score_of_counts (hits marker_particles t) (hits marker_sinhala_words t)
            (hits marker_grammar_patterns t) (hits marker_expressions t)) 1"
proof (cases "split t = []")
  case True
  then show ?thesis
    by (simp add: calculate_singlish_score_def score_of_counts_def
          hits_blank [OF True visible1] hits_blank [OF True visible2]
          hits_blank [OF True visible3] hits_blank [OF True visible4])
next
  case False
  then show ?thesis
    by (simp add: calculate_singlish_score_def score_of_counts_def Let_def score_loop_funpow)
qed

text \<open>
  C1, as amended. For every text the score is the sum, over every marker of the four
  lists that occurs in the lowercased text, of the weight of the marker's category
  (0.3, 0.4, 0.2, 0.3), clamped to 1.0: a category contributes once per marker found,
  not once. The sum is the one the code accumulates, in double precision from 0.0 and
  in the order particles, Sinhala words, grammar patterns, expressions, so it is
  determined by the four numbers of markers found. The decision is as claimed: above
  0.3 the label is \<open>singlish\<close> with the score as confidence; otherwise
  \<open>sinhala_romanized\<close> with 0.8 if an indicator occurs, else \<open>english\<close> with
  confidence 1.0 minus the score.
\<close>

theorem classify_score_per_marker:
  "lr_singlish_score (classify text) =
     min (score_of_counts (hits marker_particles (lower text))
            (hits marker_sinhala_words (lower text))
            (hits marker_grammar_patterns (lower text))
            (hits marker_expressions (lower text))) 1
   \<and> lr_classification (classify text) =
       (if lr_singlish_score (classify text) > to_double (3 / 10) then ''singlish''
        else if list_ex (\<lambda>i. contains i (lower text)) sinhala_indicators
        then ''sinhala_romanized'' else ''english'')
   \<and> lr_confidence (classify text) =
       (if lr_singlish_score (classify text) > to_double (3 / 10)
        then lr_singlish_score (classify text)
        else if list_ex (\<lambda>i. contains i (lower text)) sinhala_indicators
        then to_double (8 / 10) else fsub 1 (lr_singlish_score (classify text)))"
proof -
  have le: "calculate_singlish_score (lower text) \<le> 1"
    by (simp add: calculate_singlish_score_counts)
  have s: "lr_singlish_score (classify text) = calculate_singlish_score (lower text)"
    by (simp add: classify_def Let_def split: prod.splits)
  have c: "lr_classification (classify text) =
       (if calculate_singlish_score (lower text) > to_double (3 / 10) then ''singlish''
        else if contains_sinhala (lower text) then ''sinhala_romanized'' else ''english'')"
    by (simp add: classify_def Let_def split: prod.splits)
  have f: "lr_confidence (classify text) =
       (if calculate_singlish_score (lower text) > to_double (3 / 10)
        then min (calculate_singlish_score (lower text)) 1
        else if contains_sinhala (lower text) then to_double (8 / 10)
        else fsub 1 (calculate_singlish_score (lower text)))"
    by (simp add: classify_def Let_def split: prod.splits)
  show ?thesis
    unfolding s c f using le
    by (simp add: calculate_singlish_score_counts [symmetric] contains_sinhala_def min_absorb1)
qed

text \<open>
  C1, as stated, fails on the text \<open>lah\<close>: it contains the two particle markers
  \<open>lah\<close> and \<open>ah\<close>, so the code adds 0.3 twice, scores 0.6 and answers \<open>singlish\<close>,
  where the once-per-category rule gives 0.3, which is not above the threshold.
\<close>

theorem category_score_counterexample:
  "lr_singlish_score (classify ''lah'') = to_double (6 / 10)
   \<and> spec_category_score ''lah'' = to_double (3 / 10)
   \<and> lr_singlish_score (classify ''lah'') \<noteq> spec_category_score ''lah''
   \<and> lr_classification (classify ''lah'') = ''singlish''"
  by code_simp

end
